theory Spec2Isabelle
  imports Complex_Main
begin

section \<open>Runtime values\<close>

text \<open>
  The use case, the router and the adapter are JavaScript; the entity is TypeScript whose
  types are erased at run time. The values they inspect are the results of
  \<^verbatim>\<open>JSON.parse\<close> and the arguments of the calls, so the model works on plain data values:
  \<^verbatim>\<open>undefined\<close>, \<^verbatim>\<open>null\<close>, booleans, numbers, strings, arrays and plain objects.
  An object is its list of own properties; a property is read with \<open>map_of\<close>.
  A string is a list of code units, one \<open>char\<close> each. The number carried by \<open>JNum\<close> is
  read only for its truthiness and for string interpolation.
\<close>

datatype jsval =
    JUndefined
  | JNull
  | JBool bool
  | JNum int
  | JStr string
  | JArr "jsval list"
  | JObj "(string \<times> jsval) list"

text \<open>The exceptions the code throws: its own \<^verbatim>\<open>ValidationError\<close>, the built-in
  \<^verbatim>\<open>Error\<close> (both with their message) and the \<^verbatim>\<open>TypeError\<close> the runtime raises on a
  property read of \<^verbatim>\<open>undefined\<close> or \<^verbatim>\<open>null\<close> or on a call of a non-function (its
  message is the engine's and is not modelled).\<close>

datatype exn =
    ValidationError string
  | Error string
  | TypeError

text \<open>The class of a thrown exception, which is what \<^verbatim>\<open>instanceof\<close> or \<^verbatim>\<open>err.name\<close>
  tells a caller.\<close>

datatype exn_class = ValidationErrorClass | ErrorClass | TypeErrorClass

fun class_of :: "exn \<Rightarrow> exn_class" where
  "class_of (ValidationError m) = ValidationErrorClass"
| "class_of (Error m) = ErrorClass"
| "class_of TypeError = TypeErrorClass"

definition bindE :: "exn + 'a \<Rightarrow> ('a \<Rightarrow> exn + 'b) \<Rightarrow> exn + 'b" where
  "bindE m f = (case m of Inl e \<Rightarrow> Inl e | Inr x \<Rightarrow> f x)"

text \<open>\<^verbatim>\<open>!v\<close> is \<open>\<not> truthy v\<close>.\<close>

fun truthy :: "jsval \<Rightarrow> bool" where
  "truthy JUndefined = False"
| "truthy JNull = False"
| "truthy (JBool b) = b"
| "truthy (JNum n) = (n \<noteq> 0)"
| "truthy (JStr s) = (s \<noteq> [])"
| "truthy (JArr xs) = True"
| "truthy (JObj ps) = True"

fun typeof :: "jsval \<Rightarrow> string" where
  "typeof JUndefined = ''undefined''"
| "typeof JNull = ''object''"
| "typeof (JBool b) = ''boolean''"
| "typeof (JNum n) = ''number''"
| "typeof (JStr s) = ''string''"
| "typeof (JArr xs) = ''object''"
| "typeof (JObj ps) = ''object''"

text \<open>\<^verbatim>\<open>v.k\<close>: a \<^verbatim>\<open>TypeError\<close> on \<^verbatim>\<open>undefined\<close> and \<^verbatim>\<open>null\<close>, the own property of
  an object, and \<^verbatim>\<open>undefined\<close> on every other value. The names the program reads this way
  (\<^verbatim>\<open>title\<close>, \<^verbatim>\<open>description\<close>, \<^verbatim>\<open>actions\<close>, \<^verbatim>\<open>name\<close>, \<^verbatim>\<open>difficulty\<close>,
  \<^verbatim>\<open>language\<close>, \<^verbatim>\<open>testData\<close>, \<^verbatim>\<open>assistantContext\<close>) are not properties of the
  prototypes of strings, numbers, booleans, arrays or objects.\<close>

fun member_of :: "jsval \<Rightarrow> string \<Rightarrow> exn + jsval" where
  "member_of JUndefined k = Inl TypeError"
| "member_of JNull k = Inl TypeError"
| "member_of (JObj ps) k = Inr (case map_of ps k of None \<Rightarrow> JUndefined | Some v \<Rightarrow> v)"
| "member_of v k = Inr JUndefined"

text \<open>\<^verbatim>\<open>v?.k\<close>: \<^verbatim>\<open>undefined\<close> on \<^verbatim>\<open>undefined\<close> and \<^verbatim>\<open>null\<close>.\<close>

fun optional_member :: "jsval \<Rightarrow> string \<Rightarrow> jsval" where
  "optional_member (JObj ps) k = (case map_of ps k of None \<Rightarrow> JUndefined | Some v \<Rightarrow> v)"
| "optional_member v k = JUndefined"

text \<open>\<^verbatim>\<open>String.prototype.trim\<close> removes white space and line terminators from both ends.
  Among the code units a \<open>char\<close> holds these are TAB, LF, VT, FF, CR, SPACE and NBSP.\<close>

definition is_space :: "char \<Rightarrow> bool" where
  "is_space c = (of_char c \<in> {9, 10, 11, 12, 13, 32, 160 :: nat})"

definition trim :: "string \<Rightarrow> string" where
  "trim s = rev (dropWhile is_space (rev (dropWhile is_space s)))"

text \<open>\<^verbatim>\<open>v.trim()\<close>: only a string has the method.\<close>

fun call_trim :: "jsval \<Rightarrow> exn + jsval" where
  "call_trim (JStr s) = Inr (JStr (trim s))"
| "call_trim v = Inl TypeError"

text \<open>\<^verbatim>\<open>s.startsWith(p)\<close>.\<close>

definition startsWith :: "string \<Rightarrow> string \<Rightarrow> bool" where
  "startsWith s p = (take (length p) s = p)"

text \<open>A natural number in a template literal: its decimal digits.\<close>

definition digit :: "nat \<Rightarrow> char" where
  "digit d = ''0123456789'' ! d"

fun show_nat :: "nat \<Rightarrow> string" where
  "show_nat n = (if n < 10 then [digit n] else show_nat (n div 10) @ [digit (n mod 10)])"

declare show_nat.simps [simp del]

section \<open>The output validator\<close>

text \<open>The verdict object \<^verbatim>\<open>{ valid, error }\<close> of \<^verbatim>\<open>validateAIOutput\<close>.\<close>

record verdict =
  valid :: bool
  error :: "string option"

definition accept :: verdict where
  "accept = \<lparr>valid = True, error = None\<rparr>"

definition reject :: "string \<Rightarrow> verdict" where
  "reject msg = \<lparr>valid = False, error = Some msg\<rparr>"

text \<open>The test the validator applies to every string field,
  \<^verbatim>\<open>typeof obj.k !== 'string' || !obj.k.trim()\<close>, with both reads of \<^verbatim>\<open>obj.k\<close> and the
  short-circuit of \<^verbatim>\<open>||\<close>.\<close>

definition invalid_string_field :: "jsval \<Rightarrow> string \<Rightarrow> exn + bool" where
  "invalid_string_field obj k =
     bindE (member_of obj k) (\<lambda>v.
       if typeof v \<noteq> ''string'' then Inr True
       else bindE (member_of obj k) (\<lambda>w.
            bindE (call_trim w) (\<lambda>t. Inr (\<not> truthy t))))"

text \<open>The loop \<^verbatim>\<open>for (let i = 0; i < data.actions.length; i++)\<close> of \<^verbatim>\<open>validateAIOutput\<close>:
  \<open>check_actions i rest\<close> is the loop at index \<open>i\<close> with the elements from \<open>i\<close> on still
  to check.\<close>

fun check_actions :: "nat \<Rightarrow> jsval list \<Rightarrow> exn + verdict" where
  "check_actions i [] = Inr accept"
| "check_actions i (action # rest) =
     (if \<not> truthy action \<or> typeof action \<noteq> ''object''
      then Inr (reject (''actions['' @ show_nat i @ ''] is not an object''))
      else bindE (invalid_string_field action ''name'') (\<lambda>bad_name.
        if bad_name then Inr (reject (''actions['' @ show_nat i @ ''].name invalid''))
        else bindE (invalid_string_field action ''description'') (\<lambda>bad_description.
          if bad_description
          then Inr (reject (''actions['' @ show_nat i @ ''].description invalid''))
          else bindE (invalid_string_field action ''difficulty'') (\<lambda>bad_difficulty.
            if bad_difficulty
            then Inr (reject (''actions['' @ show_nat i @ ''].difficulty invalid''))
            else check_actions (Suc i) rest))))"

definition validateAIOutput :: "jsval \<Rightarrow> exn + verdict" where
  "validateAIOutput data =
     (if \<not> truthy data \<or> typeof data \<noteq> ''object''
      then Inr (reject ''Output is not an object'')
      else bindE (invalid_string_field data ''title'') (\<lambda>bad_title.
        if bad_title then Inr (reject ''Invalid or missing title'')
        else bindE (invalid_string_field data ''description'') (\<lambda>bad_description.
          if bad_description then Inr (reject ''Invalid or missing description'')
          else bindE (member_of data ''actions'') (\<lambda>actions.
            case actions of
              JArr xs \<Rightarrow>
                if length xs < 3 \<or> length xs > 5
                then Inr (reject ''actions length out of bounds'')
                else check_actions 0 xs
            | _ \<Rightarrow> Inr (reject ''actions must be an array'')))))"


text \<open>The validator's contract in the words of its specification: the checks in their
  order, each with the message that reports its violation, and the first one violated.
  These definitions are not read off the code; the code is compared with them below.\<close>

definition non_null_object :: "jsval \<Rightarrow> bool" where
  "non_null_object v = (v \<noteq> JNull \<and> typeof v = ''object'')"

definition nonempty_trimmed_string :: "jsval \<Rightarrow> bool" where
  "nonempty_trimmed_string v = (case v of JStr s \<Rightarrow> trim s \<noteq> [] | _ \<Rightarrow> False)"

definition is_array :: "jsval \<Rightarrow> bool" where
  "is_array v = (case v of JArr xs \<Rightarrow> True | _ \<Rightarrow> False)"

definition elements :: "jsval \<Rightarrow> jsval list" where
  "elements v = (case v of JArr xs \<Rightarrow> xs | _ \<Rightarrow> [])"

definition action_checks :: "nat \<Rightarrow> jsval \<Rightarrow> (bool \<times> string) list" where
  "action_checks i a =
     [(non_null_object a, ''actions['' @ show_nat i @ ''] is not an object''),
      (nonempty_trimmed_string (optional_member a ''name''),
         ''actions['' @ show_nat i @ ''].name invalid''),
      (nonempty_trimmed_string (optional_member a ''description''),
         ''actions['' @ show_nat i @ ''].description invalid''),
      (nonempty_trimmed_string (optional_member a ''difficulty''),
         ''actions['' @ show_nat i @ ''].difficulty invalid'')]"

definition ordered_checks :: "jsval \<Rightarrow> (bool \<times> string) list" where
  "ordered_checks d =
     [(non_null_object d, ''Output is not an object''),
      (nonempty_trimmed_string (optional_member d ''title''), ''Invalid or missing title''),
      (nonempty_trimmed_string (optional_member d ''description''),
         ''Invalid or missing description''),
      (is_array (optional_member d ''actions''), ''actions must be an array''),
      (3 \<le> length (elements (optional_member d ''actions'')) \<and>
       length (elements (optional_member d ''actions'')) \<le> 5,
         ''actions length out of bounds'')]
     @ concat (map (\<lambda>(i, a). action_checks i a)
                   (enumerate 0 (elements (optional_member d ''actions''))))"

definition first_violation :: "(bool \<times> string) list \<Rightarrow> string option" where
  "first_violation cs = map_option snd (find (\<lambda>c. \<not> fst c) cs)"

definition verdict_of :: "string option \<Rightarrow> verdict" where
  "verdict_of r = (case r of None \<Rightarrow> accept | Some msg \<Rightarrow> reject msg)"

definition well_formed_action :: "jsval \<Rightarrow> bool" where
  "well_formed_action a =
     (non_null_object a \<and>
      nonempty_trimmed_string (optional_member a ''name'') \<and>
      nonempty_trimmed_string (optional_member a ''description'') \<and>
      nonempty_trimmed_string (optional_member a ''difficulty''))"

definition well_formed_candidate :: "jsval \<Rightarrow> bool" where
  "well_formed_candidate d =
     (non_null_object d \<and>
      nonempty_trimmed_string (optional_member d ''title'') \<and>
      nonempty_trimmed_string (optional_member d ''description'') \<and>
      is_array (optional_member d ''actions'') \<and>
      3 \<le> length (elements (optional_member d ''actions'')) \<and>
      length (elements (optional_member d ''actions'')) \<le> 5 \<and>
      list_all well_formed_action (elements (optional_member d ''actions'')))"

text \<open>Candidates of the validator's test scenario: a well-formed action, and a candidate
  with a given title and list of actions.\<close>

definition action_entry :: "string \<Rightarrow> string \<Rightarrow> string \<Rightarrow> jsval" where
  "action_entry n d f =
     JObj [(''name'', JStr n), (''description'', JStr d), (''difficulty'', JStr f)]"

definition candidate :: "string \<Rightarrow> jsval list \<Rightarrow> jsval" where
  "candidate t as =
     JObj [(''title'', JStr t), (''description'', JStr ''D''), (''actions'', JArr as)]"

definition entry1 :: jsval where
  "entry1 = action_entry ''Read 5 pages'' ''...'' ''easy''"

definition entry2 :: jsval where
  "entry2 = action_entry ''...'' ''...'' ''moderate''"

definition entry3 :: jsval where
  "entry3 = action_entry ''...'' ''...'' ''challenging''"

definition entry_without_difficulty :: jsval where
  "entry_without_difficulty = JObj [(''name'', JStr ''...''), (''description'', JStr ''...'')]"

section \<open>The provider router\<close>

datatype adapter = OpenAIAdapter | GeminiAdapter

definition unknown_model_message :: "string \<Rightarrow> string" where
  "unknown_model_message model =
     ''UNKNOWN_MODEL_PROVIDER: No adapter configured for model '' @ [CHR 0x22] @ model
       @ [CHR 0x22] @ ''. '' @ ''Expected prefix: '' @ [CHR 0x27] @ ''gpt-'' @ [CHR 0x27]
       @ '', '' @ [CHR 0x27] @ ''o1-'' @ [CHR 0x27] @ '', or '' @ [CHR 0x27] @ ''gemini-''
       @ [CHR 0x27]"

text \<open>\<^verbatim>\<open>AIProviderRouter.getAdapterForModel\<close>; the adapter objects the router holds are
  named by their class.\<close>

definition getAdapterForModel :: "jsval \<Rightarrow> exn + adapter" where
  "getAdapterForModel model =
     (if \<not> truthy model \<or> typeof model \<noteq> ''string''
      then Inl (Error ''INVALID_MODEL: Model name is required'')
      else case model of
        JStr m \<Rightarrow>
          if startsWith m ''gpt-'' \<or> startsWith m ''o1-'' then Inr OpenAIAdapter
          else if startsWith m ''gemini-'' then Inr GeminiAdapter
          else Inl (Error (unknown_model_message m))
      | _ \<Rightarrow> Inl TypeError)"

section \<open>The persistence policy\<close>

definition isHabitSeriesFinal :: "string \<Rightarrow> bool" where
  "isHabitSeriesFinal functionType = (functionType = ''habit_series_structure'')"

section \<open>The Gemini adapter's accounting\<close>

text \<open>The numbers of the source are doubles; the model computes with exact rationals.
  \<^verbatim>\<open>Math.round\<close> rounds to the nearest integer, a half upwards, and \<^verbatim>\<open>Math.ceil\<close> is the
  ceiling. The calls of \<^verbatim>\<open>console.log\<close> are left out.\<close>

definition Math_round :: "rat \<Rightarrow> int" where
  "Math_round x = \<lfloor>x + 1 / 2\<rfloor>"

definition Math_ceil :: "rat \<Rightarrow> int" where
  "Math_ceil x = \<lceil>x\<rceil>"

definition calculateGeminiTokens :: "jsval \<Rightarrow> int" where
  "calculateGeminiTokens text =
     (if \<not> truthy text \<or> typeof text \<noteq> ''string'' then 0
      else case text of
        JStr s \<Rightarrow> Math_round (of_nat (length s) / 3.7)
      | _ \<Rightarrow> 0)"

definition calculateGeminiEnergy :: "jsval \<Rightarrow> jsval \<Rightarrow> int" where
  "calculateGeminiEnergy prompt response =
     (let tokensPrompt = calculateGeminiTokens prompt;
          tokensResponse = calculateGeminiTokens response;
          totalTokens = Math_round (of_int tokensResponse + of_int tokensPrompt * 0.30);
          energy = Math_ceil (of_int totalTokens / 100)
      in energy)"

text \<open>The same accounting written on the two lengths alone.\<close>

definition energy_of_lengths :: "nat \<Rightarrow> nat \<Rightarrow> int" where
  "energy_of_lengths promptLength responseLength =
     Math_ceil (of_int (Math_round (of_int (Math_round (of_nat responseLength / 3.7))
        + of_int (Math_round (of_nat promptLength / 3.7)) * 0.30)) / 100)"

section \<open>The entity\<close>

text \<open>\<^verbatim>\<open>Rank\<close> is imported from a module that is not among the sources; its values are
  the four that the comment of \<^verbatim>\<open>calculateRank\<close> names. A \<^verbatim>\<open>Date\<close> is its time value
  in milliseconds. The value objects of the actions are built by \<^verbatim>\<open>Action.fromAIOutput\<close>,
  also not among the sources, so their type is a parameter.\<close>

datatype Rank = BRONZE | SILVER | GOLDEN | DIAMOND

type_synonym date = int

record 'a HabitSeries =
  series_id :: jsval
  title :: jsval
  description :: jsval
  actions :: "'a list"
  rank :: Rank
  totalScore :: int
  createdAt :: date
  lastActivityAt :: date

record 'b HabitSeriesDTO =
  dto_id :: jsval
  dto_title :: jsval
  dto_description :: jsval
  dto_actions :: "'b list"
  dto_rank :: Rank
  dto_totalScore :: int
  dto_createdAt :: string
  dto_lastActivityAt :: string

text \<open>A value in a template literal. A plain object prints as \<^verbatim>\<open>[object Object]\<close>, an
  array as its elements joined by commas, \<^verbatim>\<open>null\<close> and \<^verbatim>\<open>undefined\<close> elements as
  nothing.\<close>

definition show_int :: "int \<Rightarrow> string" where
  "show_int n = (if n < 0 then CHR ''-'' # show_nat (nat (- n)) else show_nat (nat n))"

fun join_comma :: "string list \<Rightarrow> string" where
  "join_comma [] = []"
| "join_comma [s] = s"
| "join_comma (s # t # ss) = s @ '','' @ join_comma (t # ss)"

fun to_string :: "jsval \<Rightarrow> string" where
  "to_string JUndefined = ''undefined''"
| "to_string JNull = ''null''"
| "to_string (JBool b) = (if b then ''true'' else ''false'')"
| "to_string (JNum n) = show_int n"
| "to_string (JStr s) = s"
| "to_string (JArr xs) =
     join_comma (map (\<lambda>x. if x = JUndefined \<or> x = JNull then [] else to_string x) xs)"
| "to_string (JObj ps) = ''[object Object]''"

text \<open>\<^verbatim>\<open>input.actions.map((actionInput, index) => Action.fromAIOutput(actionInput,
  `${id}_action_${index}`))\<close>, from \<open>index\<close> on; an exception of the callback ends it.\<close>

fun map_actions ::
  "(jsval \<Rightarrow> string \<Rightarrow> exn + 'a) \<Rightarrow> jsval \<Rightarrow> nat \<Rightarrow> jsval list \<Rightarrow> exn + 'a list" where
  "map_actions Action_from ident index [] = Inr []"
| "map_actions Action_from ident index (actionInput # rest) =
     bindE (Action_from actionInput (to_string ident @ ''_action_'' @ show_nat index))
       (\<lambda>a. bindE (map_actions Action_from ident (Suc index) rest)
         (\<lambda>as. Inr (a # as)))"

text \<open>\<^verbatim>\<open>HabitSeries.fromAIOutput(id, input)\<close>. \<open>now\<close> is what \<^verbatim>\<open>new Date()\<close> reads.
  \<^verbatim>\<open>input.actions.map\<close> is a function only on an array.\<close>

definition fromAIOutput ::
  "date \<Rightarrow> (jsval \<Rightarrow> string \<Rightarrow> exn + 'a) \<Rightarrow> jsval \<Rightarrow> jsval \<Rightarrow> exn + 'a HabitSeries" where
  "fromAIOutput now Action_from ident input =
     bindE (member_of input ''actions'') (\<lambda>inputActions.
       case inputActions of
         JArr xs \<Rightarrow>
           bindE (map_actions Action_from ident 0 xs) (\<lambda>acts.
           bindE (member_of input ''title'') (\<lambda>inputTitle.
           bindE (member_of input ''description'') (\<lambda>inputDescription.
             Inr \<lparr>series_id = ident, title = inputTitle, description = inputDescription,
                  actions = acts, rank = BRONZE, totalScore = 0,
                  createdAt = now, lastActivityAt = now\<rparr>)))
       | _ \<Rightarrow> Inl TypeError)"

text \<open>\<^verbatim>\<open>toDTO\<close>, with \<^verbatim>\<open>Action.toDTO\<close> and \<^verbatim>\<open>Date.toISOString\<close> as parameters.\<close>

definition toDTO :: "('a \<Rightarrow> 'b) \<Rightarrow> (date \<Rightarrow> string) \<Rightarrow> 'a HabitSeries \<Rightarrow> 'b HabitSeriesDTO" where
  "toDTO action_toDTO to_iso e =
     \<lparr>dto_id = series_id e, dto_title = title e, dto_description = description e,
      dto_actions = map action_toDTO (actions e), dto_rank = rank e,
      dto_totalScore = totalScore e, dto_createdAt = to_iso (createdAt e),
      dto_lastActivityAt = to_iso (lastActivityAt e)\<rparr>"

section \<open>The use case\<close>

text \<open>A run of the use case is followed through the calls it makes to its collaborators:
  each call is recorded, in order. A computation takes the record so far and gives back
  its result, returned or thrown, and the record extended.\<close>

record message =
  role :: string
  content :: string

datatype event =
    AI_CALL "message list" jsval
  | CREATE_FROM_AI string
  | INCREMENT_ACTIVE_SERIES string

type_synonym 'x prog = "event list \<Rightarrow> (exn + 'x) \<times> event list"

definition returnP :: "'x \<Rightarrow> 'x prog" where
  "returnP x = (\<lambda>trace. (Inr x, trace))"

definition throwP :: "exn \<Rightarrow> 'x prog" where
  "throwP e = (\<lambda>trace. (Inl e, trace))"

definition liftE :: "exn + 'x \<Rightarrow> 'x prog" where
  "liftE r = (\<lambda>trace. (r, trace))"

definition bindP :: "'x prog \<Rightarrow> ('x \<Rightarrow> 'y prog) \<Rightarrow> 'y prog" where
  "bindP m f = (\<lambda>trace. case m trace of (Inl e, trace') \<Rightarrow> (Inl e, trace') | (Inr x, trace') \<Rightarrow> f x trace')"

text \<open>A call of a collaborator: what it answers may depend on all that happened before.\<close>

definition call :: "event \<Rightarrow> (event list \<Rightarrow> exn + 'x) \<Rightarrow> 'x prog" where
  "call ev answer = (\<lambda>trace. (answer trace, trace @ [ev]))"

text \<open>The injected collaborators; an absent one is \<open>None\<close>. The repositories are their one
  method the use case calls (\<^verbatim>\<open>incrementActiveSeries\<close>, \<^verbatim>\<open>createFromAI\<close>); the AI
  provider and the energy repository are only handed on to \<^verbatim>\<open>generateAIResponse\<close>.\<close>

record ('a, 'p, 'e) deps =
  userRepository :: "(event list \<Rightarrow> string \<Rightarrow> exn + unit) option"
  habitSeriesRepository ::
    "(event list \<Rightarrow> string \<Rightarrow> 'a HabitSeries \<Rightarrow> exn + 'a HabitSeries) option"
  energyRepository :: "'e option"
  aiProvider :: "'p option"

text \<open>What the use case imports from modules that are not among the sources, and the
  built-ins of the runtime it calls. No statement below depends on the text of a prompt,
  so the three prompt builders are parameters as well; each of them, like every import,
  may throw. \<^verbatim>\<open>generateAIResponse\<close> answers with the response object, \<^verbatim>\<open>JSON.parse\<close>
  with the parsed value or with \<open>None\<close> for its \<^verbatim>\<open>SyntaxError\<close>.\<close>

record ('a, 'b, 'p, 'e) modules =
  CreativeHabitSeriesPrompt :: "jsval \<Rightarrow> jsval \<Rightarrow> jsval \<Rightarrow> exn + message list"
  StructureHabitSeriesPrompt :: "jsval \<Rightarrow> jsval \<Rightarrow> exn + message list"
  JsonSchemaHabitSeriesPrompt :: "jsval \<Rightarrow> exn + message list"
  getModelConfig :: "string \<Rightarrow> exn + jsval"
  generateAIResponse ::
    "event list \<Rightarrow> string \<Rightarrow> message list \<Rightarrow> jsval \<Rightarrow> 'p \<Rightarrow> 'e \<Rightarrow> exn + jsval"
  JSON_parse :: "string \<Rightarrow> jsval option"
  new_Date :: date
  Action_fromAIOutput :: "jsval \<Rightarrow> string \<Rightarrow> exn + 'a"
  Action_toDTO :: "'a \<Rightarrow> 'b"
  toISOString :: "date \<Rightarrow> string"

text \<open>One pass: \<^verbatim>\<open>getModelConfig(functionType)\<close>, then \<^verbatim>\<open>await generateAIResponse(userId,
  messages, config, { aiProvider, energyRepository })\<close>.\<close>

definition ai_pass ::
  "('a, 'b, 'p, 'e) modules \<Rightarrow> string \<Rightarrow> string \<Rightarrow> message list \<Rightarrow> 'p \<Rightarrow> 'e \<Rightarrow> jsval prog" where
  "ai_pass im userId functionType messages ai energy =
     bindP (liftE (getModelConfig im functionType)) (\<lambda>config.
       call (AI_CALL messages config)
            (\<lambda>trace. generateAIResponse im trace userId messages config ai energy))"

text \<open>Step 2 of \<^verbatim>\<open>createHabitSeries\<close>, the three passes; its value is the response of the
  third.\<close>

definition ai_execution ::
  "('a, 'b, 'p, 'e) modules \<Rightarrow> string \<Rightarrow> jsval \<Rightarrow> 'p \<Rightarrow> 'e \<Rightarrow> jsval prog" where
  "ai_execution im userId payload ai energy =
     bindP (liftE (member_of payload ''language'')) (\<lambda>language.
     bindP (liftE (member_of payload ''assistantContext'')) (\<lambda>assistantContext.
     bindP (liftE (member_of payload ''testData'')) (\<lambda>testData.
     bindP (liftE (CreativeHabitSeriesPrompt im language
              (if truthy assistantContext then assistantContext else JStr []) testData))
       (\<lambda>creativeMessages.
     bindP (ai_pass im userId ''habit_series_creative'' creativeMessages ai energy)
       (\<lambda>creativeResponse.
     bindP (liftE (member_of creativeResponse ''content'')) (\<lambda>rawText.
     bindP (liftE (StructureHabitSeriesPrompt im language rawText)) (\<lambda>structureMessages.
     bindP (ai_pass im userId ''habit_series_structure'' structureMessages ai energy)
       (\<lambda>structureResponse.
     bindP (liftE (member_of structureResponse ''content'')) (\<lambda>structureContent.
     bindP (liftE (JsonSchemaHabitSeriesPrompt im structureContent)) (\<lambda>schemaMessages.
       ai_pass im userId ''json_conversion'' schemaMessages ai energy))))))))))"

text \<open>Step 3, the parse in its \<^verbatim>\<open>try\<close> block (whatever is thrown there, also by the read
  of \<^verbatim>\<open>schemaResponse.content\<close>, is caught and replaced) and the validation.\<close>

definition parse_output :: "(string \<Rightarrow> jsval option) \<Rightarrow> jsval \<Rightarrow> exn + jsval" where
  "parse_output parse schemaResponse =
     (case member_of schemaResponse ''content'' of
        Inl e \<Rightarrow> Inl (ValidationError ''AI output is not valid JSON'')
      | Inr c \<Rightarrow>
          (case c of
             JStr s \<Rightarrow>
               (case parse s of
                  None \<Rightarrow> Inl (ValidationError ''AI output is not valid JSON'')
                | Some v \<Rightarrow> Inr v)
           | _ \<Rightarrow> Inr c))"

definition post_ai_validation :: "(string \<Rightarrow> jsval option) \<Rightarrow> jsval \<Rightarrow> exn + jsval" where
  "post_ai_validation parse schemaResponse =
     bindE (parse_output parse schemaResponse) (\<lambda>parsed.
     bindE (validateAIOutput parsed) (\<lambda>validation.
       if \<not> valid validation
       then Inl (ValidationError (''AI output validation failed: '' @
              (case error validation of None \<Rightarrow> ''undefined'' | Some msg \<Rightarrow> msg)))
       else Inr parsed))"

text \<open>Steps 4 to 6. The call is \<^verbatim>\<open>HabitSeries.fromAIOutput(parsed)\<close>, with one argument:
  the parameter \<^verbatim>\<open>id\<close> of the factory is bound to it and the parameter \<^verbatim>\<open>input\<close> is
  \<^verbatim>\<open>undefined\<close>.\<close>

definition persist_and_return ::
  "('a, 'b, 'p, 'e) modules \<Rightarrow> string \<Rightarrow> jsval \<Rightarrow>
   (event list \<Rightarrow> string \<Rightarrow> exn + unit) \<Rightarrow>
   (event list \<Rightarrow> string \<Rightarrow> 'a HabitSeries \<Rightarrow> exn + 'a HabitSeries) \<Rightarrow>
   'b HabitSeriesDTO prog" where
  "persist_and_return im userId parsed incrementActiveSeries createFromAI =
     bindP (liftE (fromAIOutput (new_Date im) (Action_fromAIOutput im) parsed JUndefined))
       (\<lambda>entity.
     bindP (call (CREATE_FROM_AI userId) (\<lambda>trace. createFromAI trace userId entity))
       (\<lambda>persisted.
     bindP (call (INCREMENT_ACTIVE_SERIES userId) (\<lambda>trace. incrementActiveSeries trace userId))
       (\<lambda>u.
       returnP (toDTO (Action_toDTO im) (toISOString im) persisted))))"

text \<open>\<^verbatim>\<open>createHabitSeries(userId, payload, deps)\<close>. The four \<open>case\<close>s are the chain
  \<^verbatim>\<open>!userRepository || !habitSeriesRepository || !energyRepository || !aiProvider\<close>.\<close>

definition createHabitSeries ::
  "('a, 'b, 'p, 'e) modules \<Rightarrow> string \<Rightarrow> jsval \<Rightarrow> ('a, 'p, 'e) deps \<Rightarrow>
   'b HabitSeriesDTO prog" where
  "createHabitSeries im userId payload ds =
     (case userRepository ds of
        None \<Rightarrow> throwP (ValidationError ''Missing required dependencies'')
      | Some incrementActiveSeries \<Rightarrow>
     (case habitSeriesRepository ds of
        None \<Rightarrow> throwP (ValidationError ''Missing required dependencies'')
      | Some createFromAI \<Rightarrow>
     (case energyRepository ds of
        None \<Rightarrow> throwP (ValidationError ''Missing required dependencies'')
      | Some energy \<Rightarrow>
     (case aiProvider ds of
        None \<Rightarrow> throwP (ValidationError ''Missing required dependencies'')
      | Some ai \<Rightarrow>
        if \<not> truthy (optional_member payload ''language'')
           \<or> \<not> truthy (optional_member payload ''testData'')
        then throwP (ValidationError ''Missing required payload fields'')
        else
          bindP (ai_execution im userId payload ai energy) (\<lambda>schemaResponse.
          bindP (liftE (post_ai_validation (JSON_parse im) schemaResponse)) (\<lambda>parsed.
            persist_and_return im userId parsed incrementActiveSeries createFromAI))))))"

text \<open>The calls a record holds: those of \<^verbatim>\<open>generateAIResponse\<close>, and those of the
  habit-series repository and of the user repository.\<close>

fun is_ai_call :: "event \<Rightarrow> bool" where
  "is_ai_call (AI_CALL messages config) = True"
| "is_ai_call ev = False"

fun is_repository_call :: "event \<Rightarrow> bool" where
  "is_repository_call (AI_CALL messages config) = False"
| "is_repository_call ev = True"

text \<open>A computation that calls nothing but \<^verbatim>\<open>generateAIResponse\<close>; used in the proofs
  only.\<close>

definition calls_ai_only :: "'x prog \<Rightarrow> bool" where
  "calls_ai_only m = (\<forall>trace. \<exists>es. snd (m trace) = trace @ es \<and> list_all is_ai_call es)"

subsection \<open>The end-to-end scenario\<close>

text \<open>The request \<^verbatim>\<open>{language: "en", testData: {habit: "reading"}}\<close>, the text the
  normalization pass answers with, and the value \<^verbatim>\<open>JSON.parse\<close> makes of it.\<close>

definition scenario_payload :: jsval where
  "scenario_payload =
     JObj [(''language'', JStr ''en''), (''testData'', JObj [(''habit'', JStr ''reading'')])]"

definition scenario_json :: string where
  \<open>scenario_json = ''{"title":"Read Daily","description":"...","actions":[{"name":"Read 5 pages","description":"...","difficulty":"easy"},{"name":"...","description":"...","difficulty":"moderate"},{"name":"...","description":"...","difficulty":"challenging"}]}''\<close>

definition scenario_parsed :: jsval where
  "scenario_parsed =
     JObj [(''title'', JStr ''Read Daily''), (''description'', JStr ''...''),
           (''actions'', JArr [entry1, entry2, entry3])]"

text \<open>\<^verbatim>\<open>JSON.parse\<close> on the two texts of the scenarios: the one above, and any other text
  the scenarios use (\<^verbatim>\<open>not json\<close>), which it refuses.\<close>

definition scenario_parse :: "string \<Rightarrow> jsval option" where
  "scenario_parse s = (if s = scenario_json then Some scenario_parsed else None)"

definition response_with :: "string \<Rightarrow> jsval" where
  "response_with text = JObj [(''content'', JStr text)]"

text \<open>Collaborators for the scenario: the three passes answer in turn with free text,
  consolidated text and the given normalized text; the action factory and the repository
  hand back what they are given.\<close>

definition scenario_modules :: "string \<Rightarrow> (jsval, jsval, unit, unit) modules" where
  "scenario_modules normalized =
     \<lparr>CreativeHabitSeriesPrompt = (\<lambda>language assistantContext testData.
        Inr [\<lparr>role = ''system'', content = ''creative''\<rparr>,
             \<lparr>role = ''user'', content = ''Test data: habit: reading''\<rparr>]),
      StructureHabitSeriesPrompt = (\<lambda>language rawText.
        Inr [\<lparr>role = ''system'', content = ''structure''\<rparr>]),
      JsonSchemaHabitSeriesPrompt = (\<lambda>structured.
        Inr [\<lparr>role = ''system'', content = ''normalize''\<rparr>]),
      getModelConfig = (\<lambda>functionType. Inr (JObj [(''functionType'', JStr functionType)])),
      generateAIResponse = (\<lambda>trace userId messages config ai energy.
        Inr (response_with
          (if length trace = 0 then ''free text''
           else if length trace = 1 then ''consolidated text''
           else normalized))),
      JSON_parse = scenario_parse,
      new_Date = 1000,
      Action_fromAIOutput = (\<lambda>actionInput actionId. Inr actionInput),
      Action_toDTO = (\<lambda>action. action),
      toISOString = (\<lambda>d. ''1970-01-01T00:00:01.000Z'')\<rparr>"

definition scenario_deps :: "(jsval, unit, unit) deps" where
  "scenario_deps =
     \<lparr>userRepository = Some (\<lambda>trace userId. Inr ()),
      habitSeriesRepository = Some (\<lambda>trace userId entity. Inr entity),
      energyRepository = Some (),
      aiProvider = Some ()\<rparr>"

text \<open>The three calls the scenario records.\<close>

definition scenario_calls :: "event list" where
  "scenario_calls =
     [AI_CALL [\<lparr>role = ''system'', content = ''creative''\<rparr>,
               \<lparr>role = ''user'', content = ''Test data: habit: reading''\<rparr>]
              (JObj [(''functionType'', JStr ''habit_series_creative'')]),
      AI_CALL [\<lparr>role = ''system'', content = ''structure''\<rparr>]
              (JObj [(''functionType'', JStr ''habit_series_structure'')]),
      AI_CALL [\<lparr>role = ''system'', content = ''normalize''\<rparr>]
              (JObj [(''functionType'', JStr ''json_conversion'')])]"

section \<open>Properties of the validator\<close>

lemma non_null_object_iff: "non_null_object v = (truthy v \<and> typeof v = ''object'')"
  by (cases v) (simp_all add: non_null_object_def)

lemma member_of_object: "non_null_object obj \<Longrightarrow> member_of obj k = Inr (optional_member obj k)"
  by (cases obj) (simp_all add: non_null_object_def)

text \<open>On a non-null object the test of a string field throws nothing and is the negation
  of \<open>nonempty_trimmed_string\<close>.\<close>

lemma invalid_string_field_object:
  "non_null_object obj \<Longrightarrow>
   invalid_string_field obj k = Inr (\<not> nonempty_trimmed_string (optional_member obj k))"
  by (cases "optional_member obj k")
     (simp_all add: invalid_string_field_def member_of_object bindE_def
        nonempty_trimmed_string_def)

lemma first_violation_Nil: "first_violation [] = None"
  by (simp add: first_violation_def)

lemma first_violation_Cons:
  "first_violation ((ok, msg) # cs) = (if ok then first_violation cs else Some msg)"
  by (simp add: first_violation_def)

lemma first_violation_append:
  "first_violation (cs @ ds) =
     (case first_violation cs of None \<Rightarrow> first_violation ds | Some msg \<Rightarrow> Some msg)"
  by (induction cs) (auto simp: first_violation_def)

lemma first_violation_None: "(first_violation cs = None) = list_all fst cs"
  by (induction cs) (auto simp: first_violation_def)

lemma first_violation_action_checks:
  "first_violation (action_checks i a) =
     (if \<not> non_null_object a then Some (''actions['' @ show_nat i @ ''] is not an object'')
      else if \<not> nonempty_trimmed_string (optional_member a ''name'')
        then Some (''actions['' @ show_nat i @ ''].name invalid'')
      else if \<not> nonempty_trimmed_string (optional_member a ''description'')
        then Some (''actions['' @ show_nat i @ ''].description invalid'')
      else if \<not> nonempty_trimmed_string (optional_member a ''difficulty'')
        then Some (''actions['' @ show_nat i @ ''].difficulty invalid'')
      else None)"
  by (simp add: action_checks_def first_violation_Cons first_violation_Nil)

text \<open>The loop against the ordered checks of the actions, by induction on the actions left,
  for any index the loop has reached.\<close>

lemma check_actions_first_violation:
  "check_actions i xs =
     Inr (verdict_of (first_violation
       (concat (map (\<lambda>(j, a). action_checks j a) (enumerate i xs)))))"
proof (induction xs arbitrary: i)
  case Nil
  show ?case by (simp add: first_violation_Nil verdict_of_def)
next
  case (Cons a xs)
  show ?case
  proof (cases "non_null_object a")
    case False
    then have "\<not> truthy a \<or> typeof a \<noteq> ''object''"
      by (simp add: non_null_object_iff)
    with False show ?thesis
      by (simp add: first_violation_append first_violation_action_checks verdict_of_def)
  next
    case True
    then have a: "truthy a" "typeof a = ''object''"
      by (simp_all add: non_null_object_iff)
    show ?thesis
      using Cons.IH [of "Suc i"] True
      by (simp add: a invalid_string_field_object bindE_def
          first_violation_append first_violation_action_checks verdict_of_def)
  qed
qed

lemma validateAIOutput_first_violation:
  "validateAIOutput d = Inr (verdict_of (first_violation (ordered_checks d)))"
proof (cases "non_null_object d")
  case False
  then have "\<not> truthy d \<or> typeof d \<noteq> ''object''"
    by (simp add: non_null_object_iff)
  with False show ?thesis
    by (simp add: validateAIOutput_def ordered_checks_def first_violation_Cons verdict_of_def)
next
  case True
  then have d: "truthy d" "typeof d = ''object''"
    by (simp_all add: non_null_object_iff)
  show ?thesis
  proof (cases "optional_member d ''actions''")
    case (JArr xs)
    with True show ?thesis
      unfolding validateAIOutput_def ordered_checks_def
      by (simp add: d invalid_string_field_object
          member_of_object bindE_def first_violation_Cons first_violation_append
          check_actions_first_violation is_array_def elements_def verdict_of_def
          split: option.splits)
  qed (use True in \<open>simp_all add: validateAIOutput_def ordered_checks_def
          d invalid_string_field_object
          member_of_object bindE_def first_violation_Cons first_violation_Nil
          is_array_def elements_def verdict_of_def\<close>)
qed

lemma accept_neq_reject: "accept \<noteq> reject msg"
  by (simp add: accept_def reject_def)

lemma verdict_of_accept: "(verdict_of r = accept) = (r = None)"
  by (cases r) (simp_all add: verdict_of_def accept_def reject_def)

lemma list_all_action_checks:
  "list_all fst (concat (map (\<lambda>(j, a). action_checks j a) (enumerate i xs)))
     = list_all well_formed_action xs"
  by (induction xs arbitrary: i) (simp_all add: action_checks_def well_formed_action_def)

lemma list_all_ordered_checks: "list_all fst (ordered_checks d) = well_formed_candidate d"
  by (simp add: ordered_checks_def well_formed_candidate_def list_all_action_checks)

lemma validateAIOutput_accept_iff:
  "(validateAIOutput d = Inr accept) = well_formed_candidate d"
  by (simp add: validateAIOutput_first_violation verdict_of_accept first_violation_None
      list_all_ordered_checks)

lemma validateAIOutput_reject_iff:
  "(\<exists>msg. validateAIOutput d = Inr (reject msg)) = (\<not> well_formed_candidate d)"
proof (cases "first_violation (ordered_checks d)")
  case None
  then show ?thesis
    using first_violation_None [of "ordered_checks d"]
    by (simp add: validateAIOutput_first_violation verdict_of_def accept_neq_reject
        list_all_ordered_checks)
next
  case (Some msg)
  then show ?thesis
    using first_violation_None [of "ordered_checks d"]
    by (simp add: validateAIOutput_first_violation verdict_of_def reject_def
        list_all_ordered_checks)
qed

lemmas scenario_values =
  candidate_def action_entry_def entry1_def entry2_def entry3_def
  entry_without_difficulty_def scenario_parsed_def

lemmas validator_eval =
  validateAIOutput_def invalid_string_field_def bindE_def trim_def is_space_def
  accept_def reject_def show_nat.simps digit_def

text \<open>C5. The validator accepts the candidate with title \<^verbatim>\<open>T\<close>, description \<^verbatim>\<open>D\<close> and
  three well-formed actions; it rejects that candidate with two actions, with six, with an
  empty title, with a title of white space, and with an action that has no difficulty. For
  every value \<open>d\<close>, it accepts \<open>d\<close> exactly when \<open>d\<close> is a non-null object whose title and
  description are strings that are not empty once trimmed and whose actions are an array of
  three to five non-null objects with such a name, description and difficulty; every other
  value it rejects.\<close>

theorem validateAIOutput_accepts_exactly_well_formed:
  "validateAIOutput (candidate ''T'' [entry1, entry2, entry3]) = Inr accept \<and>
   validateAIOutput (candidate ''T'' [entry1, entry2])
     = Inr (reject ''actions length out of bounds'') \<and>
   validateAIOutput (candidate ''T'' [entry1, entry2, entry3, entry1, entry2, entry3])
     = Inr (reject ''actions length out of bounds'') \<and>
   validateAIOutput (candidate '''' [entry1, entry2, entry3])
     = Inr (reject ''Invalid or missing title'') \<and>
   validateAIOutput (candidate ''   '' [entry1, entry2, entry3])
     = Inr (reject ''Invalid or missing title'') \<and>
   validateAIOutput (candidate ''T'' [entry1, entry_without_difficulty, entry3])
     = Inr (reject ''actions[1].difficulty invalid'') \<and>
   (validateAIOutput d = Inr accept) = well_formed_candidate d \<and>
   (\<exists>msg. validateAIOutput d = Inr (reject msg)) = (\<not> well_formed_candidate d)"
proof -
  have "validateAIOutput (candidate ''T'' [entry1, entry2, entry3]) = Inr accept"
    by (simp add: scenario_values validator_eval)
  moreover have "validateAIOutput (candidate ''T'' [entry1, entry2])
      = Inr (reject ''actions length out of bounds'')"
    by (simp add: scenario_values validator_eval)
  moreover have
    "validateAIOutput (candidate ''T'' [entry1, entry2, entry3, entry1, entry2, entry3])
      = Inr (reject ''actions length out of bounds'')"
    by (simp add: scenario_values validator_eval)
  moreover have "validateAIOutput (candidate '''' [entry1, entry2, entry3])
      = Inr (reject ''Invalid or missing title'')"
    by (simp add: scenario_values validator_eval)
  moreover have "validateAIOutput (candidate ''   '' [entry1, entry2, entry3])
      = Inr (reject ''Invalid or missing title'')"
    by (simp add: scenario_values validator_eval)
  moreover have "validateAIOutput (candidate ''T'' [entry1, entry_without_difficulty, entry3])
      = Inr (reject ''actions[1].difficulty invalid'')"
    by (simp add: scenario_values validator_eval)
  ultimately show ?thesis
    using validateAIOutput_accept_iff [of d] validateAIOutput_reject_iff [of d]
    by simp
qed

theorem validateAIOutput_accepts_exactly_well_formed_witness:
  "well_formed_candidate scenario_parsed \<and> validateAIOutput scenario_parsed = Inr accept \<and>
   \<not> well_formed_candidate (JArr []) \<and>
   validateAIOutput (JArr []) = Inr (reject ''Invalid or missing title'')"
proof -
  have wf: "well_formed_candidate scenario_parsed"
    by (simp add: scenario_values well_formed_candidate_def well_formed_action_def
        non_null_object_def nonempty_trimmed_string_def is_array_def elements_def
        trim_def is_space_def)
  have rej: "validateAIOutput (JArr []) = Inr (reject ''Invalid or missing title'')"
    by (simp add: validator_eval)
  from wf rej show ?thesis
    using validateAIOutput_accepts_exactly_well_formed [of scenario_parsed]
      validateAIOutput_accepts_exactly_well_formed [of "JArr []"]
    by (simp add: accept_neq_reject [symmetric])
qed

text \<open>C6. For every value, the verdict of the validator is the one of the first check
  violated in the fixed order: non-null object, title, description, actions an array, the
  length of the actions within three to five, then for each action in sequence order
  object, name, description, difficulty. It is an acceptance when no check is violated,
  and otherwise the rejection carrying the message of that first check alone. A candidate
  with an empty title, two actions and a first action without name is rejected for its
  title.\<close>

theorem validateAIOutput_reports_first_violation:
  "validateAIOutput d = Inr (verdict_of (first_violation (ordered_checks d))) \<and>
   validateAIOutput (candidate '''' [JObj [], entry2])
     = Inr (reject ''Invalid or missing title'') \<and>
   validateAIOutput (candidate ''T'' [JObj [], entry2])
     = Inr (reject ''actions length out of bounds'') \<and>
   validateAIOutput (candidate ''T'' [entry1, JObj [], JNull])
     = Inr (reject ''actions[1].name invalid'')"
proof -
  have "validateAIOutput (candidate '''' [JObj [], entry2])
      = Inr (reject ''Invalid or missing title'')"
    by (simp add: scenario_values validator_eval)
  moreover have "validateAIOutput (candidate ''T'' [JObj [], entry2])
      = Inr (reject ''actions length out of bounds'')"
    by (simp add: scenario_values validator_eval)
  moreover have "validateAIOutput (candidate ''T'' [entry1, JObj [], JNull])
      = Inr (reject ''actions[1].name invalid'')"
    by (simp add: scenario_values validator_eval)
  ultimately show ?thesis
    using validateAIOutput_first_violation [of d] by simp
qed

theorem validateAIOutput_reports_first_violation_witness:
  "first_violation (ordered_checks (candidate ''T'' [entry1, entry2, JNull]))
     = Some ''actions[2] is not an object'' \<and>
   validateAIOutput (candidate ''T'' [entry1, entry2, JNull])
     = Inr (reject ''actions[2] is not an object'')"
proof -
  have "validateAIOutput (candidate ''T'' [entry1, entry2, JNull])
      = Inr (reject ''actions[2] is not an object'')"
    by (simp add: scenario_values validator_eval)
  then show ?thesis
    using validateAIOutput_reports_first_violation [of "candidate ''T'' [entry1, entry2, JNull]"]
    by (cases "first_violation (ordered_checks (candidate ''T'' [entry1, entry2, JNull]))")
       (simp_all add: verdict_of_def accept_def reject_def)
qed

text \<open>C10. For every value, the validator throws nothing and returns a verdict object,
  either \<^verbatim>\<open>{valid: true}\<close> or \<^verbatim>\<open>{valid: false, error}\<close> with a message. The reads it
  guards do throw when they are not guarded: the test of a string field throws on
  \<^verbatim>\<open>null\<close> and on \<^verbatim>\<open>undefined\<close>.\<close>

theorem validateAIOutput_total:
  "(\<exists>v. validateAIOutput d = Inr v \<and>
        (v = \<lparr>valid = True, error = None\<rparr> \<or>
         (\<exists>msg. v = \<lparr>valid = False, error = Some msg\<rparr>))) \<and>
   invalid_string_field JNull k = Inl TypeError \<and>
   invalid_string_field JUndefined k = Inl TypeError"
proof -
  have "\<exists>v. validateAIOutput d = Inr v \<and>
        (v = \<lparr>valid = True, error = None\<rparr> \<or>
         (\<exists>msg. v = \<lparr>valid = False, error = Some msg\<rparr>))"
    by (cases "first_violation (ordered_checks d)")
       (simp_all add: validateAIOutput_first_violation verdict_of_def accept_def reject_def)
  then show ?thesis
    by (simp add: invalid_string_field_def bindE_def)
qed

theorem validateAIOutput_total_witness:
  "validateAIOutput JNull = Inr \<lparr>valid = False, error = Some ''Output is not an object''\<rparr> \<and>
   (\<exists>v. validateAIOutput (JArr [JNull, JNum 3]) = Inr v) \<and>
   (\<exists>v. validateAIOutput (JObj [(''title'', JNum 1)]) = Inr v)"
proof -
  have "validateAIOutput JNull
      = Inr \<lparr>valid = False, error = Some ''Output is not an object''\<rparr>"
    by (simp add: validator_eval)
  then show ?thesis
    using validateAIOutput_total [of "JArr [JNull, JNum 3]"]
      validateAIOutput_total [of "JObj [(''title'', JNum 1)]"]
    by blast
qed

section \<open>Properties of the router\<close>

lemma getAdapterForModel_non_string:
  "typeof v \<noteq> ''string'' \<Longrightarrow>
   getAdapterForModel v = Inl (Error ''INVALID_MODEL: Model name is required'')"
  by (simp add: getAdapterForModel_def)

lemma getAdapterForModel_string:
  "getAdapterForModel (JStr m) =
     (if m = [] then Inl (Error ''INVALID_MODEL: Model name is required'')
      else if startsWith m ''gpt-'' \<or> startsWith m ''o1-'' then Inr OpenAIAdapter
      else if startsWith m ''gemini-'' then Inr GeminiAdapter
      else Inl (Error (unknown_model_message m)))"
  by (simp add: getAdapterForModel_def)

lemma getAdapterForModel_Inr_iff:
  "(getAdapterForModel v = Inr a) =
     (\<exists>m. v = JStr m \<and>
        (if startsWith m ''gpt-'' \<or> startsWith m ''o1-'' then a = OpenAIAdapter
         else startsWith m ''gemini-'' \<and> a = GeminiAdapter))"
proof (cases v)
  case (JStr m)
  have "m = [] \<Longrightarrow> \<not> startsWith m ''gpt-'' \<and> \<not> startsWith m ''o1-'' \<and> \<not> startsWith m ''gemini-''"
    by (simp add: startsWith_def)
  with JStr show ?thesis
    by (auto simp: getAdapterForModel_string)
qed (simp_all add: getAdapterForModel_def)

text \<open>C3. \<^verbatim>\<open>getAdapterForModel\<close> answers with the OpenAI adapter for \<^verbatim>\<open>gpt-4o-mini\<close> and
  \<^verbatim>\<open>o1-preview\<close> and with the Gemini adapter for \<^verbatim>\<open>gemini-2.5-flash\<close> and
  \<^verbatim>\<open>gemini-2.5-pro\<close>. It throws an \<^verbatim>\<open>Error\<close> for \<^verbatim>\<open>mistral-large\<close> (with the message
  \<^verbatim>\<open>UNKNOWN_MODEL_PROVIDER\<close>), for the empty string and for every value that is not a
  string (with the message \<^verbatim>\<open>INVALID_MODEL\<close>). It hands out no adapter by default: an adapter is returned only for a
  string that starts with \<^verbatim>\<open>gpt-\<close> or \<^verbatim>\<open>o1-\<close> (the OpenAI adapter) or with
  \<^verbatim>\<open>gemini-\<close> (the Gemini adapter), and every other value makes it throw.\<close>

theorem getAdapterForModel_routes_by_prefix:
  "getAdapterForModel (JStr ''gpt-4o-mini'') = Inr OpenAIAdapter \<and>
   getAdapterForModel (JStr ''o1-preview'') = Inr OpenAIAdapter \<and>
   getAdapterForModel (JStr ''gemini-2.5-flash'') = Inr GeminiAdapter \<and>
   getAdapterForModel (JStr ''gemini-2.5-pro'') = Inr GeminiAdapter \<and>
   getAdapterForModel (JStr ''mistral-large'')
     = Inl (Error (unknown_model_message ''mistral-large'')) \<and>
   getAdapterForModel (JStr '''') = Inl (Error ''INVALID_MODEL: Model name is required'') \<and>
   (typeof v \<noteq> ''string'' \<longrightarrow>
      getAdapterForModel v = Inl (Error ''INVALID_MODEL: Model name is required'')) \<and>
   (getAdapterForModel v = Inr a) =
     (\<exists>m. v = JStr m \<and>
        (if startsWith m ''gpt-'' \<or> startsWith m ''o1-'' then a = OpenAIAdapter
         else startsWith m ''gemini-'' \<and> a = GeminiAdapter)) \<and>
   ((\<exists>r. getAdapterForModel v = Inr r) \<or>
    (\<exists>msg. getAdapterForModel v = Inl (Error msg)))"
proof -
  have "(\<exists>r. getAdapterForModel v = Inr r) \<or> (\<exists>msg. getAdapterForModel v = Inl (Error msg))"
    by (cases v) (simp_all add: getAdapterForModel_def)
  then show ?thesis
    using getAdapterForModel_Inr_iff [of v a] getAdapterForModel_non_string [of v]
    by (simp add: getAdapterForModel_string startsWith_def)
qed

theorem getAdapterForModel_routes_by_prefix_witness:
  "typeof (JNum 7) \<noteq> ''string'' \<and>
   getAdapterForModel (JNum 7) = Inl (Error ''INVALID_MODEL: Model name is required'') \<and>
   getAdapterForModel JUndefined = Inl (Error ''INVALID_MODEL: Model name is required'') \<and>
   getAdapterForModel (JStr ''claude-3'') \<noteq> Inr GeminiAdapter \<and>
   getAdapterForModel (JStr ''claude-3'') \<noteq> Inr OpenAIAdapter"
  using getAdapterForModel_routes_by_prefix [of "JNum 7" GeminiAdapter]
    getAdapterForModel_routes_by_prefix [of JUndefined GeminiAdapter]
    getAdapterForModel_routes_by_prefix [of "JStr ''claude-3''" GeminiAdapter]
    getAdapterForModel_routes_by_prefix [of "JStr ''claude-3''" OpenAIAdapter]
  by (simp add: startsWith_def)

section \<open>Properties of the persistence policy\<close>

text \<open>C7. \<^verbatim>\<open>isHabitSeriesFinal\<close> is true for \<^verbatim>\<open>habit_series_structure\<close>, false for
  \<^verbatim>\<open>habit_series_creative\<close> and for \<^verbatim>\<open>json_conversion\<close>, and true for no identifier
  but \<^verbatim>\<open>habit_series_structure\<close>.\<close>

theorem isHabitSeriesFinal_only_structure:
  "isHabitSeriesFinal ''habit_series_structure'' \<and>
   \<not> isHabitSeriesFinal ''habit_series_creative'' \<and>
   \<not> isHabitSeriesFinal ''json_conversion'' \<and>
   isHabitSeriesFinal functionType = (functionType = ''habit_series_structure'')"
  by (simp add: isHabitSeriesFinal_def)

theorem isHabitSeriesFinal_only_structure_witness:
  "\<not> isHabitSeriesFinal ''habit_series_Structure'' \<and> \<not> isHabitSeriesFinal ''''"
  using isHabitSeriesFinal_only_structure [of "''habit_series_Structure''"]
    isHabitSeriesFinal_only_structure [of "''''"]
  by simp

section \<open>Properties of the accounting\<close>

lemma calculateGeminiTokens_string:
  "calculateGeminiTokens (JStr s) = Math_round (of_nat (length s) / 3.7)"
  by (cases s) (simp_all add: calculateGeminiTokens_def Math_round_def floor_eq_iff)

lemma calculateGeminiEnergy_lengths:
  "calculateGeminiEnergy (JStr p) (JStr r) = energy_of_lengths (length p) (length r)"
  by (simp add: calculateGeminiEnergy_def energy_of_lengths_def calculateGeminiTokens_string
      Let_def)

text \<open>C8. The energy of a prompt text and a response text is a function of their two
  lengths: two pairs of texts with the same lengths have the same energy. The function
  reads nothing else, neither a clock nor anything the vendor reports, so two runs on the
  same texts give the same value.\<close>

theorem calculateGeminiEnergy_depends_on_lengths_only:
  assumes "length prompt1 = length prompt2" and "length response1 = length response2"
  shows "calculateGeminiEnergy (JStr prompt1) (JStr response1)
       = calculateGeminiEnergy (JStr prompt2) (JStr response2)"
  using assms by (simp add: calculateGeminiEnergy_lengths)

theorem calculateGeminiEnergy_depends_on_lengths_only_witness:
  "length ''Test data: habit: reading'' = length ''Datos del test: abcdefghi'' \<and>
   length ''Read Daily'' = length ''Lee a diez'' \<and>
   calculateGeminiEnergy (JStr ''Test data: habit: reading'') (JStr ''Read Daily'')
     = calculateGeminiEnergy (JStr ''Datos del test: abcdefghi'') (JStr ''Lee a diez'') \<and>
   calculateGeminiEnergy (JStr ''Test data: habit: reading'') (JStr ''Read Daily'') = 1"
proof -
  have l1: "length ''Test data: habit: reading'' = length ''Datos del test: abcdefghi''"
    by simp
  have l2: "length ''Read Daily'' = length ''Lee a diez''"
    by simp
  have tokens: "\<lfloor>(537::rat) / 74\<rfloor> = 7" "\<lfloor>(237::rat) / 74\<rfloor> = 3"
    by (simp_all add: floor_eq_iff)
  have total: "\<lfloor>(28::rat) / 5\<rfloor> = 5"
    by (simp add: floor_eq_iff)
  have energy: "\<lceil>(1::rat) / 20\<rceil> = 1"
    by (simp add: ceiling_eq_iff)
  have "calculateGeminiEnergy (JStr ''Test data: habit: reading'') (JStr ''Read Daily'') = 1"
    by (simp add: calculateGeminiEnergy_lengths energy_of_lengths_def Math_round_def
        Math_ceil_def tokens total energy)
  then show ?thesis
    using calculateGeminiEnergy_depends_on_lengths_only [OF l1 l2] l1 l2 by simp
qed

section \<open>Properties of the entity\<close>

lemma fromAIOutput_undefined_input: "fromAIOutput now mk ident JUndefined = Inl TypeError"
  by (simp add: fromAIOutput_def bindE_def)

lemma map_actions_length:
  "map_actions mk ident i xs = Inr as \<Longrightarrow> length as = length xs"
  by (induction xs arbitrary: i as) (auto simp: bindE_def split: sum.splits)

lemma map_actions_returns:
  "\<forall>a s. \<exists>x. mk a s = Inr x \<Longrightarrow> \<exists>as. map_actions mk ident i xs = Inr as"
proof (induction xs arbitrary: i)
  case Nil
  show ?case by simp
next
  case (Cons a xs)
  from Cons.prems obtain x
    where x: "mk a (to_string ident @ ''_action_'' @ show_nat i) = Inr x"
    by blast
  from Cons.IH [OF Cons.prems, of "Suc i"] obtain as
    where "map_actions mk ident (Suc i) xs = Inr as"
    by blast
  with x show ?case by (simp add: bindE_def)
qed

lemma fromAIOutput_Inr:
  assumes "fromAIOutput now mk ident input = Inr e"
  shows "\<exists>xs as. member_of input ''actions'' = Inr (JArr xs) \<and>
           map_actions mk ident 0 xs = Inr as \<and>
           e = \<lparr>series_id = ident, title = optional_member input ''title'',
                description = optional_member input ''description'',
                actions = as, rank = BRONZE, totalScore = 0,
                createdAt = now, lastActivityAt = now\<rparr>"
proof (cases input)
  case (JObj ps)
  with assms show ?thesis
    by (auto simp: fromAIOutput_def bindE_def split: sum.splits jsval.splits)
qed (use assms in \<open>simp_all add: fromAIOutput_def bindE_def\<close>)

text \<open>Called as it is declared, with the parsed value as its second argument, the factory
  keeps the title and the number of actions.\<close>

lemma fromAIOutput_keeps_title_and_actions:
  assumes "fromAIOutput now mk ident input = Inr e"
  shows "title e = optional_member input ''title'' \<and>
         length (actions e) = length (elements (optional_member input ''actions'')) \<and>
         dto_title (toDTO f g e) = optional_member input ''title'' \<and>
         length (dto_actions (toDTO f g e))
           = length (elements (optional_member input ''actions''))"
proof -
  from fromAIOutput_Inr [OF assms] obtain xs as
    where m: "member_of input ''actions'' = Inr (JArr xs)"
      and as: "map_actions mk ident 0 xs = Inr as"
      and e: "e = \<lparr>series_id = ident, title = optional_member input ''title'',
                description = optional_member input ''description'',
                actions = as, rank = BRONZE, totalScore = 0,
                createdAt = now, lastActivityAt = now\<rparr>"
    by blast
  from m have "optional_member input ''actions'' = JArr xs"
    by (cases input) simp_all
  with map_actions_length [OF as] e show ?thesis
    by (simp add: toDTO_def elements_def)
qed

lemma fromAIOutput_returns:
  assumes "well_formed_candidate input" and "\<forall>a s. \<exists>x. mk a s = Inr x"
  shows "\<exists>e. fromAIOutput now mk ident input = Inr e"
proof -
  from assms(1) have obj: "non_null_object input"
    and arr: "is_array (optional_member input ''actions'')"
    by (simp_all add: well_formed_candidate_def)
  from arr obtain xs where xs: "optional_member input ''actions'' = JArr xs"
    by (cases "optional_member input ''actions''") (simp_all add: is_array_def)
  from map_actions_returns [OF assms(2)] obtain as
    where "map_actions mk ident 0 xs = Inr as"
    by blast
  with obj xs show ?thesis
    by (simp add: fromAIOutput_def member_of_object bindE_def)
qed

text \<open>C9. Whatever the input, an entity that \<^verbatim>\<open>HabitSeries.fromAIOutput\<close> returns has
  rank \<^verbatim>\<open>BRONZE\<close>, total score 0, and \<^verbatim>\<open>createdAt\<close> and \<^verbatim>\<open>lastActivityAt\<close> both equal
  to the instant read at creation. For every input the validator accepts, an entity is
  returned if the factory of the actions returns for each of them.\<close>

theorem fromAIOutput_rank_score_dates:
  "(fromAIOutput now mk ident input = Inr e \<longrightarrow>
      rank e = BRONZE \<and> totalScore e = 0 \<and> createdAt e = lastActivityAt e \<and>
      createdAt e = now) \<and>
   (validateAIOutput input = Inr accept \<and> (\<forall>a s. \<exists>x. mk a s = Inr x) \<longrightarrow>
      (\<exists>r. fromAIOutput now mk ident input = Inr r))"
proof -
  have "rank e = BRONZE \<and> totalScore e = 0 \<and> createdAt e = lastActivityAt e \<and>
      createdAt e = now"
    if "fromAIOutput now mk ident input = Inr e"
    using fromAIOutput_Inr [OF that] by auto
  moreover have "\<exists>r. fromAIOutput now mk ident input = Inr r"
    if "validateAIOutput input = Inr accept" and "\<forall>a s. \<exists>x. mk a s = Inr x"
    using that fromAIOutput_returns [of input mk now ident]
    by (simp add: validateAIOutput_accept_iff)
  ultimately show ?thesis by blast
qed

theorem fromAIOutput_rank_score_dates_witness:
  "fromAIOutput 1000 (\<lambda>a s. Inr a) (JStr ''series-1'') scenario_parsed
     = Inr \<lparr>series_id = JStr ''series-1'', title = JStr ''Read Daily'',
            description = JStr ''...'', actions = [entry1, entry2, entry3],
            rank = BRONZE, totalScore = 0, createdAt = 1000, lastActivityAt = 1000\<rparr> \<and>
   rank \<lparr>series_id = JStr ''series-1'', title = JStr ''Read Daily'',
            description = JStr ''...'', actions = [entry1, entry2, entry3],
            rank = BRONZE, totalScore = 0, createdAt = 1000, lastActivityAt = 1000\<rparr>
     = BRONZE"
proof -
  have run: "fromAIOutput 1000 (\<lambda>a s. Inr a) (JStr ''series-1'') scenario_parsed
     = Inr \<lparr>series_id = JStr ''series-1'', title = JStr ''Read Daily'',
            description = JStr ''...'', actions = [entry1, entry2, entry3],
            rank = BRONZE, totalScore = 0, createdAt = 1000, lastActivityAt = 1000\<rparr>"
    by (simp add: fromAIOutput_def bindE_def scenario_parsed_def)
  with fromAIOutput_rank_score_dates
    [of 1000 "\<lambda>a s. Inr a" "JStr ''series-1''" scenario_parsed
      "\<lparr>series_id = JStr ''series-1'', title = JStr ''Read Daily'',
            description = JStr ''...'', actions = [entry1, entry2, entry3],
            rank = BRONZE, totalScore = 0, createdAt = 1000, lastActivityAt = 1000\<rparr>"]
  show ?thesis by blast
qed

section \<open>Properties of the use case\<close>

lemma bindP_liftE_Inl: "bindP (liftE (Inl e)) f = throwP e"
  by (simp add: bindP_def liftE_def throwP_def)

text \<open>The factory is called with one argument, so steps 4 to 6 end at the factory.\<close>

lemma persist_and_return_throws:
  "persist_and_return im userId parsed incrementActiveSeries createFromAI = throwP TypeError"
  by (simp add: persist_and_return_def fromAIOutput_undefined_input bindP_liftE_Inl)

lemma calls_ai_only_liftE: "calls_ai_only (liftE r)"
  by (simp add: calls_ai_only_def liftE_def)

lemma calls_ai_only_call: "calls_ai_only (call (AI_CALL messages config) answer)"
  by (simp add: calls_ai_only_def call_def)

lemma calls_ai_only_bindP:
  assumes "calls_ai_only m" and "\<And>x. calls_ai_only (f x)"
  shows "calls_ai_only (bindP m f)"
  unfolding calls_ai_only_def
proof
  fix trace
  from assms(1) obtain es where es: "snd (m trace) = trace @ es" "list_all is_ai_call es"
    unfolding calls_ai_only_def by blast
  show "\<exists>es. snd (bindP m f trace) = trace @ es \<and> list_all is_ai_call es"
  proof (cases "m trace")
    case (Pair r trace')
    with es have trace': "trace' = trace @ es" by simp
    show ?thesis
    proof (cases r)
      case (Inl e)
      with Pair es show ?thesis by (auto simp: bindP_def)
    next
      case (Inr x)
      from assms(2) [of x] obtain es'
        where "snd (f x trace') = trace' @ es'" "list_all is_ai_call es'"
        unfolding calls_ai_only_def by blast
      with Pair Inr trace' es(2) show ?thesis
        by (auto simp: bindP_def intro: exI [of _ "es @ es'"])
    qed
  qed
qed

lemma calls_ai_only_ai_pass: "calls_ai_only (ai_pass im userId functionType messages ai energy)"
  unfolding ai_pass_def
  by (intro calls_ai_only_bindP calls_ai_only_liftE calls_ai_only_call)

lemma calls_ai_only_ai_execution: "calls_ai_only (ai_execution im userId payload ai energy)"
  unfolding ai_execution_def
  by (intro calls_ai_only_bindP calls_ai_only_liftE calls_ai_only_ai_pass)

lemma ai_execution_log:
  assumes "ai_execution im userId payload ai energy [] = (r, trace)"
  shows "list_all is_ai_call trace"
  using calls_ai_only_ai_execution [of im userId payload ai energy] assms
  by (auto simp: calls_ai_only_def dest!: spec [of _ "[]"])

lemma is_ai_call_not_repository: "list_all is_ai_call trace \<Longrightarrow> \<not> list_ex is_repository_call trace"
proof (induction trace)
  case Nil
  show ?case by simp
next
  case (Cons ev trace)
  then show ?case by (cases ev) simp_all
qed

text \<open>The use case behind its entry guard.\<close>

lemma createHabitSeries_guarded:
  assumes "userRepository ds = Some inc" and "habitSeriesRepository ds = Some cr"
    and "energyRepository ds = Some en" and "aiProvider ds = Some ai"
    and "truthy (optional_member payload ''language'')"
    and "truthy (optional_member payload ''testData'')"
  shows "createHabitSeries im userId payload ds =
           bindP (ai_execution im userId payload ai en) (\<lambda>schemaResponse.
           bindP (liftE (post_ai_validation (JSON_parse im) schemaResponse)) (\<lambda>parsed.
             throwP TypeError))"
  using assms by (simp add: createHabitSeries_def persist_and_return_throws)

lemma createHabitSeries_no_dependency:
  assumes "userRepository ds = None \<or> habitSeriesRepository ds = None \<or>
           energyRepository ds = None \<or> aiProvider ds = None"
  shows "createHabitSeries im userId payload ds =
           throwP (ValidationError ''Missing required dependencies'')"
  using assms by (auto simp: createHabitSeries_def split: option.splits)

lemma createHabitSeries_no_payload:
  assumes "userRepository ds \<noteq> None" and "habitSeriesRepository ds \<noteq> None"
    and "energyRepository ds \<noteq> None" and "aiProvider ds \<noteq> None"
    and "\<not> truthy (optional_member payload ''language'') \<or>
         \<not> truthy (optional_member payload ''testData'')"
  shows "createHabitSeries im userId payload ds =
           throwP (ValidationError ''Missing required payload fields'')"
  using assms by (auto simp: createHabitSeries_def split: option.splits)

lemma post_ai_validation_unparseable:
  assumes "member_of schemaResponse ''content'' = Inr (JStr s)" and "parse s = None"
  shows "post_ai_validation parse schemaResponse
           = Inl (ValidationError ''AI output is not valid JSON'')"
  using assms by (simp add: post_ai_validation_def parse_output_def bindE_def)

lemmas scenario_run =
  scenario_modules_def scenario_deps_def scenario_payload_def scenario_calls_def
  response_with_def ai_execution_def ai_pass_def bindP_def liftE_def call_def

lemma scenario_ai_execution:
  "ai_execution (scenario_modules normalized) ''user-1'' scenario_payload () () []
     = (Inr (response_with normalized), scenario_calls)"
  by (simp add: scenario_run)

lemma scenario_not_json: "scenario_parse ''not json'' = None"
  by (simp add: scenario_parse_def scenario_json_def)

lemma scenario_validation:
  "post_ai_validation scenario_parse (response_with scenario_json) = Inr scenario_parsed"
proof -
  have "validateAIOutput scenario_parsed = Inr accept"
    by (simp add: scenario_values validator_eval)
  then show ?thesis
    by (simp add: post_ai_validation_def parse_output_def response_with_def scenario_parse_def
        bindE_def accept_def)
qed

text \<open>Whatever the request, the collaborators and their answers, the use case returns no
  DTO: a run that passes the guard, the passes and the validation ends at the factory.\<close>

lemma bindP_never_returns:
  assumes "\<And>x t. fst (f x t) \<noteq> Inr y"
  shows "fst (bindP m f trace) \<noteq> Inr y"
  using assms by (auto simp: bindP_def split: prod.splits sum.splits)

lemma createHabitSeries_never_returns:
  "fst (createHabitSeries im userId payload ds trace) \<noteq> Inr dto"
proof (cases "userRepository ds = None \<or> habitSeriesRepository ds = None \<or>
           energyRepository ds = None \<or> aiProvider ds = None")
  case True
  then show ?thesis
    by (simp add: createHabitSeries_no_dependency throwP_def)
next
  case deps: False
  show ?thesis
  proof (cases "truthy (optional_member payload ''language'') \<and>
      truthy (optional_member payload ''testData'')")
    case False
    with deps show ?thesis
      by (simp add: createHabitSeries_no_payload throwP_def)
  next
    case True
    from deps obtain inc cr en ai
      where "userRepository ds = Some inc" "habitSeriesRepository ds = Some cr"
        "energyRepository ds = Some en" "aiProvider ds = Some ai"
      by auto
    with True show ?thesis
      by (simp add: createHabitSeries_guarded bindP_never_returns throwP_def)
  qed
qed

text \<open>C1. In the end-to-end scenario (request \<^verbatim>\<open>{language: "en", testData: {habit:
  "reading"}}\<close>, three passes that succeed, a normalized output that parses to the series
  \<^verbatim>\<open>Read Daily\<close> with three well-formed actions and passes the validation) the use case
  returns no DTO: it throws the \<^verbatim>\<open>TypeError\<close> of the factory, which it calls with the
  parsed value alone, after the three calls of the passes and before any call of a
  repository. Called with an id and the parsed value, as it is declared, the factory
  returns an entity whose DTO has the parsed title and three actions.\<close>

theorem createHabitSeries_scenario_throws:
  "createHabitSeries (scenario_modules scenario_json) ''user-1'' scenario_payload
     scenario_deps [] = (Inl TypeError, scenario_calls) \<and>
   post_ai_validation scenario_parse (response_with scenario_json) = Inr scenario_parsed \<and>
   map_sum id (\<lambda>e. (dto_title (toDTO id (\<lambda>d. ''1970-01-01T00:00:01.000Z'') e),
                     length (dto_actions (toDTO id (\<lambda>d. ''1970-01-01T00:00:01.000Z'') e))))
     (fromAIOutput 1000 (\<lambda>a s. Inr a) (JStr ''series-1'') scenario_parsed)
     = Inr (JStr ''Read Daily'', 3)"
proof -
  have deps: "userRepository scenario_deps = Some (\<lambda>trace userId. Inr ())"
    "habitSeriesRepository scenario_deps = Some (\<lambda>trace userId entity. Inr entity)"
    "energyRepository scenario_deps = Some ()" "aiProvider scenario_deps = Some ()"
    by (simp_all add: scenario_deps_def)
  have payload: "truthy (optional_member scenario_payload ''language'')"
    "truthy (optional_member scenario_payload ''testData'')"
    by (simp_all add: scenario_payload_def)
  have parse: "JSON_parse (scenario_modules scenario_json) = scenario_parse"
    by (simp add: scenario_modules_def)
  have "createHabitSeries (scenario_modules scenario_json) ''user-1'' scenario_payload
     scenario_deps [] = (Inl TypeError, scenario_calls)"
    unfolding createHabitSeries_guarded [OF deps payload] parse
    by (simp add: bindP_def scenario_ai_execution liftE_def scenario_validation throwP_def)
  moreover have "map_sum id (\<lambda>e. (dto_title (toDTO id (\<lambda>d. ''1970-01-01T00:00:01.000Z'') e),
                     length (dto_actions (toDTO id (\<lambda>d. ''1970-01-01T00:00:01.000Z'') e))))
     (fromAIOutput 1000 (\<lambda>a s. Inr a) (JStr ''series-1'') scenario_parsed)
     = Inr (JStr ''Read Daily'', 3)"
    by (simp add: fromAIOutput_def bindE_def scenario_parsed_def toDTO_def)
  ultimately show ?thesis
    by (simp add: scenario_validation)
qed

theorem createHabitSeries_scenario_throws_witness:
  "isl (fst (createHabitSeries (scenario_modules scenario_json) ''user-1'' scenario_payload
     scenario_deps [])) \<and>
   \<not> list_ex is_repository_call (snd (createHabitSeries (scenario_modules scenario_json)
     ''user-1'' scenario_payload scenario_deps []))"
  using createHabitSeries_scenario_throws by (simp add: scenario_calls_def)

text \<open>C2. In every run in which the collaborators are present, the payload passes the
  guard, the three passes succeed and the content of the third response is a string that
  \<^verbatim>\<open>JSON.parse\<close> refuses, the use case throws its \<^verbatim>\<open>ValidationError\<close> with the message
  \<^verbatim>\<open>AI output is not valid JSON\<close>, the error it has for malformed output. Nothing is
  parsed a second time, and the calls made are those of the passes: neither the
  habit-series repository nor the user repository is called.\<close>

theorem createHabitSeries_malformed_output:
  assumes "userRepository ds = Some inc" and "habitSeriesRepository ds = Some cr"
    and "energyRepository ds = Some en" and "aiProvider ds = Some ai"
    and "truthy (optional_member payload ''language'')"
    and "truthy (optional_member payload ''testData'')"
    and "ai_execution im userId payload ai en [] = (Inr schemaResponse, trace)"
    and "member_of schemaResponse ''content'' = Inr (JStr s)"
    and "JSON_parse im s = None"
  shows "createHabitSeries im userId payload ds []
           = (Inl (ValidationError ''AI output is not valid JSON''), trace) \<and>
         list_all is_ai_call trace \<and> \<not> list_ex is_repository_call trace"
proof -
  have "createHabitSeries im userId payload ds []
      = (Inl (ValidationError ''AI output is not valid JSON''), trace)"
    unfolding createHabitSeries_guarded [OF assms(1-6)]
    by (simp add: bindP_def assms(7) liftE_def
        post_ai_validation_unparseable [of schemaResponse s "JSON_parse im", OF assms(8,9)])
  with ai_execution_log [OF assms(7)] show ?thesis
    by (simp add: is_ai_call_not_repository)
qed

theorem createHabitSeries_malformed_output_witness:
  "createHabitSeries (scenario_modules ''not json'') ''user-1'' scenario_payload
     scenario_deps [] = (Inl (ValidationError ''AI output is not valid JSON''), scenario_calls) \<and>
   \<not> list_ex is_repository_call scenario_calls"
proof -
  have deps: "userRepository scenario_deps = Some (\<lambda>trace userId. Inr ())"
    "habitSeriesRepository scenario_deps = Some (\<lambda>trace userId entity. Inr entity)"
    "energyRepository scenario_deps = Some ()" "aiProvider scenario_deps = Some ()"
    by (simp_all add: scenario_deps_def)
  have payload: "truthy (optional_member scenario_payload ''language'')"
    "truthy (optional_member scenario_payload ''testData'')"
    by (simp_all add: scenario_payload_def)
  have content: "member_of (response_with ''not json'') ''content'' = Inr (JStr ''not json'')"
    by (simp add: response_with_def)
  have parse: "JSON_parse (scenario_modules ''not json'') ''not json'' = None"
    by (simp add: scenario_modules_def scenario_not_json)
  from createHabitSeries_malformed_output
    [OF deps payload scenario_ai_execution content parse]
  show ?thesis by simp
qed

text \<open>C4, as the code has it. When a collaborator is absent the use case throws a
  \<^verbatim>\<open>ValidationError\<close> with the message \<^verbatim>\<open>Missing required dependencies\<close>; when all are
  present and the language or the test data of the payload is missing (or falsy) it throws
  a \<^verbatim>\<open>ValidationError\<close> with the message \<^verbatim>\<open>Missing required payload fields\<close>. Both
  are thrown before any collaborator is called. The two errors are of one class and differ
  in their message only.\<close>

theorem createHabitSeries_entry_guard:
  "(userRepository ds = None \<or> habitSeriesRepository ds = None \<or>
    energyRepository ds = None \<or> aiProvider ds = None \<longrightarrow>
      createHabitSeries im userId payload ds []
        = (Inl (ValidationError ''Missing required dependencies''), [])) \<and>
   (userRepository ds \<noteq> None \<and> habitSeriesRepository ds \<noteq> None \<and>
    energyRepository ds \<noteq> None \<and> aiProvider ds \<noteq> None \<and>
    (\<not> truthy (optional_member payload ''language'') \<or>
     \<not> truthy (optional_member payload ''testData'')) \<longrightarrow>
      createHabitSeries im userId payload ds []
        = (Inl (ValidationError ''Missing required payload fields''), [])) \<and>
   class_of (ValidationError ''Missing required dependencies'')
     = class_of (ValidationError ''Missing required payload fields'') \<and>
   ValidationError ''Missing required dependencies''
     \<noteq> ValidationError ''Missing required payload fields''"
  using createHabitSeries_no_dependency [of ds im userId payload]
    createHabitSeries_no_payload [of ds payload im userId]
  by (simp add: throwP_def)

theorem createHabitSeries_entry_guard_witness:
  "createHabitSeries (scenario_modules scenario_json) ''user-1'' scenario_payload
     (scenario_deps\<lparr>energyRepository := None\<rparr>) []
     = (Inl (ValidationError ''Missing required dependencies''), []) \<and>
   createHabitSeries (scenario_modules scenario_json) ''user-1''
     (JObj [(''language'', JStr ''en'')]) scenario_deps []
     = (Inl (ValidationError ''Missing required payload fields''), []) \<and>
   createHabitSeries (scenario_modules scenario_json) ''user-1'' JUndefined scenario_deps []
     = (Inl (ValidationError ''Missing required payload fields''), [])"
  using createHabitSeries_entry_guard
      [of "scenario_deps\<lparr>energyRepository := None\<rparr>" "scenario_modules scenario_json"
        "''user-1''" scenario_payload]
    createHabitSeries_entry_guard
      [of scenario_deps "scenario_modules scenario_json" "''user-1''"
        "JObj [(''language'', JStr ''en'')]"]
    createHabitSeries_entry_guard
      [of scenario_deps "scenario_modules scenario_json" "''user-1''" JUndefined]
  by (simp add: scenario_deps_def)

text \<open>The error thrown for an absent AI provider and the error thrown for a payload
  without test data are of the same class.\<close>

theorem createHabitSeries_guard_errors_same_class:
  "isl (fst (createHabitSeries (scenario_modules scenario_json) ''user-1'' scenario_payload
     (scenario_deps\<lparr>aiProvider := None\<rparr>) [])) \<and>
   isl (fst (createHabitSeries (scenario_modules scenario_json) ''user-1''
     (JObj [(''language'', JStr ''en'')]) scenario_deps [])) \<and>
   class_of (projl (fst (createHabitSeries (scenario_modules scenario_json) ''user-1''
     scenario_payload (scenario_deps\<lparr>aiProvider := None\<rparr>) [])))
   = class_of (projl (fst (createHabitSeries (scenario_modules scenario_json) ''user-1''
     (JObj [(''language'', JStr ''en'')]) scenario_deps [])))"
proof -
  have "createHabitSeries (scenario_modules scenario_json) ''user-1'' scenario_payload
     (scenario_deps\<lparr>aiProvider := None\<rparr>) []
     = (Inl (ValidationError ''Missing required dependencies''), [])"
    by (simp add: createHabitSeries_no_dependency throwP_def)
  moreover have "createHabitSeries (scenario_modules scenario_json) ''user-1''
     (JObj [(''language'', JStr ''en'')]) scenario_deps []
     = (Inl (ValidationError ''Missing required payload fields''), [])"
    by (simp add: createHabitSeries_no_payload scenario_deps_def throwP_def)
  ultimately show ?thesis by simp
qed

end
